theory Spec2Isabelle
  imports Complex_Main
begin

section \<open>Python exceptions\<close>

text \<open>
  The exceptions the two programs raise or handle, as values. Every constructor stands for
  a subclass of Python's \<open>Exception\<close>; the string is the text \<open>str(e)\<close> gives.
  \<open>OtherException\<close> is any other subclass of \<open>Exception\<close> that a library call raises
  (a network failure, an \<open>OSError\<close> of the file system, an error of the inference backend).
\<close>

datatype exn =
    ResourceNotFoundError string
  | TypeError string
  | ValueError string
  | IndexError string
  | AssertionError string
  | RuntimeError string
  | OtherException string

fun str_exn :: "exn \<Rightarrow> string" where
  "str_exn (ResourceNotFoundError m) = m"
| "str_exn (TypeError m) = m"
| "str_exn (ValueError m) = m"
| "str_exn (IndexError m) = m"
| "str_exn (AssertionError m) = m"
| "str_exn (RuntimeError m) = m"
| "str_exn (OtherException m) = m"

fun is_ResourceNotFoundError :: "exn \<Rightarrow> bool" where
  "is_ResourceNotFoundError (ResourceNotFoundError m) = True"
| "is_ResourceNotFoundError e = False"

section \<open>Face_gallery_sync.py\<close>

subsection \<open>The local machine and the remote store\<close>

type_synonym path = string
type_synonym bytes = "nat list"

datatype entry = File bytes | Dir

text \<open>
  What the script can observe and change: the local file system (a map from paths to
  entries), the lines printed to standard output, and the download requests sent to the
  store, each with container name and blob name, in order.
\<close>

record world =
  files :: "path \<rightharpoonup> entry"
  stdout :: "string list"
  downloads :: "(string \<times> string) list"

text \<open>
  The operating system's answers that the script does not control: the home directory that
  \<open>os.path.expanduser("~")\<close> returns, and the exception, if any, with which
  \<open>os.makedirs\<close>, \<open>open(path, 'wb+')\<close> and \<open>file.write\<close> fail on a path.
\<close>

record os_env =
  home :: path
  makedirs_error :: "path \<Rightarrow> exn option"
  open_error :: "path \<Rightarrow> exn option"
  write_error :: "path \<Rightarrow> exn option"

record container_properties =
  container_name :: string
  container_metadata :: string

record blob_properties =
  blob_name :: string

text \<open>
  A paged iterator of the storage client: the items it yields, then the exception that the
  next fetch raises, if any.
\<close>

type_synonym 'a paged = "'a list \<times> exn option"

text \<open>
  The storage account behind a connection string. \<open>container_metadata\<close> holds the text
  that \<open>print\<close> shows for the metadata mapping.
\<close>

record storage =
  from_connection_string_error :: "string \<Rightarrow> exn option"
  list_containers :: "container_properties paged"
  list_blobs :: "string \<Rightarrow> blob_properties paged"
  download_blob :: "string \<Rightarrow> string \<Rightarrow> exn + bytes"

definition print :: "string \<Rightarrow> world \<Rightarrow> world" where
  "print line w = w\<lparr>stdout := stdout w @ [line]\<rparr>"

definition os_path_exists :: "world \<Rightarrow> path \<Rightarrow> bool" where
  "os_path_exists w p = (files w p \<noteq> None)"

text \<open>\<open>os.path.join\<close> of two components, as \<open>posixpath\<close> computes it.\<close>

definition os_path_join :: "path \<Rightarrow> string \<Rightarrow> path" where
  "os_path_join a b =
     (if b \<noteq> [] \<and> hd b = CHR ''/'' then b
      else if a = [] \<or> last a = CHR ''/'' then a @ b
      else a @ ''/'' @ b)"

subsection \<open>run_sample\<close>

text \<open>
  The statements of the inner \<open>try\<close> block: download the whole blob, open the local file
  (which creates it empty), write, close. The result is the exception that leaves the
  block, if any, and the world as the statements executed so far left it.
\<close>

definition download_and_write ::
  "storage \<Rightarrow> os_env \<Rightarrow> string \<Rightarrow> blob_properties \<Rightarrow> path \<Rightarrow> world \<Rightarrow> exn option \<times> world" where
  "download_and_write st env cname blob p w =
     (let w1 = w\<lparr>downloads := downloads w @ [(cname, blob_name blob)]\<rparr> in
      case download_blob st cname (blob_name blob) of
        Inl e \<Rightarrow> (Some e, w1)
      | Inr stream \<Rightarrow>
          (case open_error env p of
             Some e \<Rightarrow> (Some e, w1)
           | None \<Rightarrow>
               (let w2 = w1\<lparr>files := (files w1)(p \<mapsto> File [])\<rparr> in
                case write_error env p of
                  Some e \<Rightarrow> (Some e, w2)
                | None \<Rightarrow> (None, w2\<lparr>files := (files w2)(p \<mapsto> File stream)\<rparr>))))"

text \<open>The body of the loop over the blobs of one container, with its handler.\<close>

definition sync_blob ::
  "storage \<Rightarrow> os_env \<Rightarrow> path \<Rightarrow> string \<Rightarrow> blob_properties \<Rightarrow> world \<Rightarrow> exn option \<times> world" where
  "sync_blob st env local_path cname blob w =
     (let w1 = print (CHR 0x09 # '' Blob name: '' @ blob_name blob) w;
          local_file_path_for_blob = os_path_join local_path (blob_name blob);
          w2 = print (CHR 0x09 # '' Local Path for blob: '' @ local_file_path_for_blob) w1
      in if os_path_exists w2 local_file_path_for_blob
         then (None, print ''[ DEBUG ] File Exist! '' w2)
         else
           (let w3 = print ''[ DEBUG ] File NOT Exist! Update New Image...'' w2 in
            case download_and_write st env cname blob local_file_path_for_blob w3 of
              (None, w4) \<Rightarrow> (None, w4)
            | (Some e, w4) \<Rightarrow>
                if is_ResourceNotFoundError e then (None, print ''No blob found.'' w4)
                else (Some e, w4)))"

fun sync_blobs ::
  "storage \<Rightarrow> os_env \<Rightarrow> path \<Rightarrow> string \<Rightarrow> blob_properties list \<Rightarrow> world \<Rightarrow> exn option \<times> world" where
  "sync_blobs st env local_path cname [] w = (None, w)"
| "sync_blobs st env local_path cname (blob # rest) w =
     (case sync_blob st env local_path cname blob w of
        (Some e, w') \<Rightarrow> (Some e, w')
      | (None, w') \<Rightarrow> sync_blobs st env local_path cname rest w')"

text \<open>
  Iterating a paged listing: the loop body runs on every item yielded; then the listing's
  own exception, if any, is raised by the fetch of the next item.
\<close>

definition for_paged ::
  "('a list \<Rightarrow> world \<Rightarrow> exn option \<times> world) \<Rightarrow> 'a paged \<Rightarrow> world \<Rightarrow> exn option \<times> world" where
  "for_paged loop pg w =
     (case loop (fst pg) w of
        (Some e, w') \<Rightarrow> (Some e, w')
      | (None, w') \<Rightarrow> (snd pg, w'))"

definition sync_container ::
  "storage \<Rightarrow> os_env \<Rightarrow> path \<Rightarrow> container_properties \<Rightarrow> world \<Rightarrow> exn option \<times> world" where
  "sync_container st env local_path container w =
     (let w1 = print (container_name container @ '' '' @ container_metadata container) w;
          w2 = print (CHR 0x0A # ''List blobs in the container'') w1
      in for_paged (sync_blobs st env local_path (container_name container))
           (list_blobs st (container_name container)) w2)"

fun sync_containers ::
  "storage \<Rightarrow> os_env \<Rightarrow> path \<Rightarrow> container_properties list \<Rightarrow> world \<Rightarrow> exn option \<times> world" where
  "sync_containers st env local_path [] w = (None, w)"
| "sync_containers st env local_path (container # rest) w =
     (case sync_container st env local_path container w of
        (Some e, w') \<Rightarrow> (Some e, w')
      | (None, w') \<Rightarrow> sync_containers st env local_path rest w')"

text \<open>The statements of the outer \<open>try\<close> block.\<close>

definition run_sample_try :: "storage \<Rightarrow> os_env \<Rightarrow> string \<Rightarrow> world \<Rightarrow> exn option \<times> world" where
  "run_sample_try st env azs_storage w =
     (case from_connection_string_error st azs_storage of
        Some e \<Rightarrow> (Some e, w)
      | None \<Rightarrow>
          (let local_path = os_path_join (home env) ''Face_Gallery'' in
           case (if \<not> os_path_exists w local_path
                 then (case makedirs_error env local_path of
                         Some e \<Rightarrow> (Some e, w)
                       | None \<Rightarrow>
                           (None, print (''[ DEBUG ] Make '' @ local_path)
                                    (w\<lparr>files := (files w)(local_path \<mapsto> Dir)\<rparr>)))
                 else (None, w)) of
             (Some e, w1) \<Rightarrow> (Some e, w1)
           | (None, w1) \<Rightarrow>
               for_paged (sync_containers st env local_path) (list_containers st) w1))"

text \<open>
  \<open>run_sample\<close>: the outer handler prints whatever exception left the block and the
  function returns normally. The first component is the exception that leaves
  \<open>run_sample\<close> itself.
\<close>

definition run_sample :: "storage \<Rightarrow> os_env \<Rightarrow> string \<Rightarrow> world \<Rightarrow> exn option \<times> world" where
  "run_sample st env azs_storage w =
     (case run_sample_try st env azs_storage w of
        (Some e, w') \<Rightarrow> (None, print (str_exn e) w')
      | (None, w') \<Rightarrow> (None, w'))"

text \<open>
  Calling a Python function that has one required positional parameter: the arguments are
  bound before the body starts, and a call with another number of arguments raises
  \<open>TypeError\<close> without running any of the body.
\<close>

definition call_run_sample ::
  "storage \<Rightarrow> os_env \<Rightarrow> string list \<Rightarrow> world \<Rightarrow> exn option \<times> world" where
  "call_run_sample st env args w =
     (case args of
        [azs_storage] \<Rightarrow> run_sample st env azs_storage w
      | [] \<Rightarrow>
          (Some (TypeError (''run_sample() missing 1 required positional argument: ''
                   @ [CHR 0x27] @ ''azs_storage'' @ [CHR 0x27])), w)
      | _ \<Rightarrow> (Some (TypeError ''run_sample() takes 1 positional argument but more were given''), w))"

text \<open>The \<open>__main__\<close> block: \<open>run_sample()\<close>, outside any \<open>try\<close>.\<close>

definition main :: "storage \<Rightarrow> os_env \<Rightarrow> world \<Rightarrow> exn option \<times> world" where
  "main st env w = call_run_sample st env [] w"

section \<open>deep_speech_pipeline.py\<close>

subsection \<open>Arrays\<close>

text \<open>
  Floating-point arrays are lists of reals: the pipeline copies, pads and slices them and
  divides integer samples by \<open>32768\<close>, a power of two, which is exact in binary floating
  point for every sample below \<open>2^53\<close> in magnitude.
\<close>

type_synonym matrix = "real list list"
type_synonym lstm_state = "real list list"

datatype int_dtype = Int8 | Int16 | Int32 | Int64 | UInt8 | UInt16 | UInt32 | UInt64

fun dtype_min :: "int_dtype \<Rightarrow> int" where
  "dtype_min Int8 = - (2 ^ 7)"
| "dtype_min Int16 = - (2 ^ 15)"
| "dtype_min Int32 = - (2 ^ 31)"
| "dtype_min Int64 = - (2 ^ 63)"
| "dtype_min u = 0"

fun dtype_max :: "int_dtype \<Rightarrow> int" where
  "dtype_max Int8 = 2 ^ 7 - 1"
| "dtype_max Int16 = 2 ^ 15 - 1"
| "dtype_max Int32 = 2 ^ 31 - 1"
| "dtype_max Int64 = 2 ^ 63 - 1"
| "dtype_max UInt8 = 2 ^ 8 - 1"
| "dtype_max UInt16 = 2 ^ 16 - 1"
| "dtype_max UInt32 = 2 ^ 32 - 1"
| "dtype_max UInt64 = 2 ^ 64 - 1"

text \<open>
  The elements of an audio array in C order: integers of an integer dtype
  (\<open>np.issubdtype(dtype, np.integer)\<close> holds) or numbers of any other dtype.
\<close>

datatype samples = IntegerSamples int_dtype "int list" | FloatingSamples "real list"

record ndarray =
  shape :: "nat list"
  data :: samples

fun size_samples :: "samples \<Rightarrow> nat" where
  "size_samples (IntegerSamples t xs) = length xs"
| "size_samples (FloatingSamples xs) = length xs"

fun in_dtype_range :: "samples \<Rightarrow> bool" where
  "in_dtype_range (IntegerSamples t xs) = list_all (\<lambda>x. dtype_min t \<le> x \<and> x \<le> dtype_max t) xs"
| "in_dtype_range (FloatingSamples xs) = True"

text \<open>An array a numpy program can hold: as many elements as its shape says, each in the dtype's range.\<close>

definition wf_ndarray :: "ndarray \<Rightarrow> bool" where
  "wf_ndarray a = (size_samples (data a) = prod_list (shape a) \<and> in_dtype_range (data a))"

text \<open>Indexing a tuple with a constant that is not negative.\<close>

definition tuple_index :: "'a list \<Rightarrow> nat \<Rightarrow> exn + 'a" where
  "tuple_index t i = (if i < length t then Inr (t ! i) else Inl (IndexError ''tuple index out of range''))"

subsection \<open>Collaborators\<close>

record infer_inputs =
  previous_state_c :: lstm_state
  previous_state_h :: lstm_state
  input_node :: "matrix list list"

text \<open>
  The outputs of one forward pass that the pipeline reads: \<open>logits\<close> and the two
  \<open>BlockLSTM/TensorIterator\<close> outputs (\<open>.1\<close> the hidden state, \<open>.2\<close> the cell state).
\<close>

record infer_outputs =
  logits :: "real list list list"
  TensorIterator_1 :: lstm_state
  TensorIterator_2 :: lstm_state

text \<open>
  The inference runtime: the \<open>IECore\<close> object's methods, \<open>net.layers.keys()\<close> and the
  \<open>infer\<close> method of an executable network. \<open>'n\<close> is the type of a loaded network,
  \<open>'x\<close> of a network bound to a device.
\<close>

record ('n, 'x) inference_engine =
  add_extension :: "string \<Rightarrow> string \<Rightarrow> exn option"
  read_network :: "string \<Rightarrow> string \<Rightarrow> exn + 'n"
  query_network :: "'n option \<Rightarrow> string \<Rightarrow> exn + string list"
  layers_keys :: "'n \<Rightarrow> string list"
  load_network :: "'n option \<Rightarrow> string \<Rightarrow> exn + 'x"
  infer :: "'x \<Rightarrow> infer_inputs \<Rightarrow> exn + infer_outputs"

type_synonym hypotheses = "(real \<times> string) list"
type_synonym decoder = "matrix \<Rightarrow> exn + hypotheses"

text \<open>
  The modules the pipeline imports: \<open>utils.alphabet\<close>, \<open>utils.audio_features\<close>,
  \<open>utils.ctcnumpy_beam_search_decoder\<close> and the constructor \<open>IECore()\<close>.
\<close>

record ('n, 'x) modules =
  get_default_alphabet :: "string list"
  load_alphabet :: "string \<Rightarrow> exn + string list"
  IECore :: "('n, 'x) inference_engine"
  audio_spectrogram :: "matrix \<Rightarrow> real \<Rightarrow> real \<Rightarrow> bool \<Rightarrow> exn + matrix"
  mfcc :: "matrix list \<Rightarrow> int \<Rightarrow> nat \<Rightarrow> exn + matrix"
  CtcnumpyBeamSearchDecoder :: "string list \<Rightarrow> nat \<Rightarrow> string option \<Rightarrow> real \<Rightarrow> real \<Rightarrow> exn + decoder"

text \<open>The calls a pipeline makes to its collaborators.\<close>

datatype event =
    Call_add_extension string string
  | Call_read_network string string
  | Call_query_network string
  | Call_load_network string
  | Call_audio_spectrogram
  | Call_mfcc
  | Call_infer infer_inputs
  | Call_decode

subsection \<open>The pipeline object\<close>

text \<open>
  The attributes of a \<open>DeepSpeechPipeline\<close>. \<open>decoder\<close> is \<open>None\<close> until
  \<open>__init__\<close> has assigned it. \<open>calls\<close> is not an attribute: it records, in order,
  the collaborator calls made through the object.
\<close>

record ('n, 'x) pipeline =
  num_mfcc_dct_coefs :: nat
  num_context_frames :: nat
  num_batch_frames :: nat
  model_sample_rate :: int
  frame_window_size_seconds :: real
  frame_stride_seconds :: real
  beam_width :: nat
  alphabet :: "string list"
  net :: "'n option"
  exec_net :: "'x option"
  default_device :: "string option"
  ie :: "('n, 'x) inference_engine"
  decoder :: "decoder option"
  calls :: "event list"

definition record_call :: "event \<Rightarrow> ('n, 'x) pipeline \<Rightarrow> ('n, 'x) pipeline" where
  "record_call ev self = self\<lparr>calls := calls self @ [ev]\<rparr>"

subsection \<open>Strings and paths\<close>

fun str_nat :: "nat \<Rightarrow> string" where
  "str_nat n = (if n < 10 then [char_of (48 + n)] else str_nat (n div 10) @ [char_of (48 + n mod 10)])"

text \<open>
  The text of \<open>rate/1e3\<close> under \<open>str.format\<close>, for an integer rate below \<open>10^19\<close> in
  magnitude: the quotient, a point, and the digits of the remainder without trailing
  zeros (\<open>16000\<close> gives \<open>16.0\<close>, \<open>44100\<close> gives \<open>44.1\<close>).
\<close>

definition str_div_1e3 :: "int \<Rightarrow> string" where
  "str_div_1e3 rate =
     (let n = nat \<bar>rate\<bar>;
          d = [n div 100 mod 10, n div 10 mod 10, n mod 10];
          frac = rev (dropWhile (\<lambda>x. x = 0) (rev d))
      in (if rate < 0 then ''-'' else []) @ str_nat (n div 1000) @ ''.''
           @ (if frac = [] then ''0'' else concat (map str_nat frac)))"

definition join_strings :: "string \<Rightarrow> string list \<Rightarrow> string" where
  "join_strings sep xs = (case xs of [] \<Rightarrow> [] | x # rest \<Rightarrow> x @ concat (map (\<lambda>y. sep @ y) rest))"

text \<open>\<open>os.path.basename\<close> and \<open>os.path.dirname\<close> as \<open>posixpath\<close> computes them.\<close>

definition os_path_basename :: "path \<Rightarrow> string" where
  "os_path_basename p = rev (takeWhile (\<lambda>c. c \<noteq> CHR ''/'') (rev p))"

definition os_path_dirname :: "path \<Rightarrow> string" where
  "os_path_dirname p =
     (let head = rev (dropWhile (\<lambda>c. c \<noteq> CHR ''/'') (rev p))
      in if head \<noteq> [] \<and> \<not> list_all (\<lambda>c. c = CHR ''/'') head
         then rev (dropWhile (\<lambda>c. c = CHR ''/'') (rev head)) else head)"

text \<open>\<open>s.rsplit('.', 1)[0]\<close>.\<close>

definition rsplit_dot_first :: "string \<Rightarrow> string" where
  "rsplit_dot_first s =
     (if CHR ''.'' \<in> set s then rev (tl (dropWhile (\<lambda>c. c \<noteq> CHR ''.'') (rev s))) else s)"

subsection \<open>Loading and activating the model\<close>

text \<open>
  A method is a function from the object (and its arguments) to the value returned or the
  exception raised, and the object as the method leaves it.
\<close>

definition check_ir_nodes ::
  "('n, 'x) pipeline \<Rightarrow> string \<Rightarrow> ((string \<times> string) list) option \<Rightarrow> (exn + unit) \<times> ('n, 'x) pipeline" where
  "check_ir_nodes self device device_config =
     (let self1 = record_call (Call_query_network device) self in
      case query_network (ie self) (net self) device of
        Inl e \<Rightarrow> (Inl e, self1)
      | Inr device_supported_layers \<Rightarrow>
          (case net self of
             None \<Rightarrow> (Inl (OtherException ''NoneType object has no attribute layers''), self1)
           | Some n \<Rightarrow>
               (let net_unsupported_layers =
                      filter (\<lambda>l. l \<notin> set device_supported_layers) (layers_keys (ie self) n)
                in if length net_unsupported_layers > 0
                   then (Inl (RuntimeError
                          (''Following layers are not supported by the plugin for specified device ''
                           @ device @ '': '' @ join_strings '', '' net_unsupported_layers
                           @ ''.  Please try to specify IE extension library path with --cpu_extension command line argument'')),
                         self1)
                   else (Inr (), self1))))"

fun add_extensions ::
  "('n, 'x) pipeline \<Rightarrow> (string \<times> string option) list \<Rightarrow> (exn + unit) \<times> ('n, 'x) pipeline" where
  "add_extensions self [] = (Inr (), self)"
| "add_extensions self ((extension_device, None) # rest) = add_extensions self rest"
| "add_extensions self ((extension_device, Some extension_fname) # rest) =
     (let self1 = record_call (Call_add_extension extension_fname extension_device) self in
      case add_extension (ie self) extension_fname extension_device of
        Some e \<Rightarrow> (Inl e, self1)
      | None \<Rightarrow> add_extensions self1 rest)"

definition load_net ::
  "('n, 'x) pipeline \<Rightarrow> string \<Rightarrow> string option \<Rightarrow> (string \<times> string option) list \<Rightarrow> string option
     \<Rightarrow> ((string \<times> string) list) option \<Rightarrow> (exn + unit) \<times> ('n, 'x) pipeline" where
  "load_net self model_xml_fname model_bin_fname ie_extensions device device_config =
     (let model_bin_fname =
            (case model_bin_fname of
               Some f \<Rightarrow> f
             | None \<Rightarrow> os_path_join (os_path_dirname model_xml_fname)
                         (rsplit_dot_first (os_path_basename model_xml_fname) @ ''.bin''))
      in case add_extensions self ie_extensions of
           (Inl e, self1) \<Rightarrow> (Inl e, self1)
         | (Inr u, self1) \<Rightarrow>
             (let self2 = record_call (Call_read_network model_xml_fname model_bin_fname) self1 in
              case read_network (ie self2) model_xml_fname model_bin_fname of
                Inl e \<Rightarrow> (Inl e, self2)
              | Inr n \<Rightarrow>
                  (let self3 = self2\<lparr>net := Some n\<rparr> in
                   case device of
                     Some d \<Rightarrow> check_ir_nodes self3 d device_config
                   | None \<Rightarrow> (Inr (), self3))))"

definition activate_model :: "('n, 'x) pipeline \<Rightarrow> string \<Rightarrow> (exn + unit) \<times> ('n, 'x) pipeline" where
  "activate_model self device =
     (if exec_net self \<noteq> None then (Inr (), self)
      else
        (let self1 = record_call (Call_load_network device) self in
         case load_network (ie self) (net self) device of
           Inl e \<Rightarrow> (Inl e, self1)
         | Inr x \<Rightarrow> (Inr (), self1\<lparr>exec_net := Some x\<rparr>)))"

datatype alphabet_arg = Alphabet_None | Alphabet_str string | Alphabet_list "string list"

text \<open>
  \<open>__init__\<close>: the object when construction succeeds, the exception otherwise. The
  arguments are \<open>model\<close>, \<open>model_bin\<close>, \<open>lm\<close>, \<open>alphabet\<close>, \<open>beam_width\<close>, \<open>alpha\<close>,
  \<open>beta\<close>, \<open>ie\<close>, \<open>device\<close> and \<open>ie_extensions\<close>, with \<open>None\<close> as \<open>None\<close>.
\<close>

definition DeepSpeechPipeline_init ::
  "('n, 'x) modules \<Rightarrow> string \<Rightarrow> string option \<Rightarrow> string option \<Rightarrow> alphabet_arg \<Rightarrow> nat \<Rightarrow> real \<Rightarrow> real
     \<Rightarrow> ('n, 'x) inference_engine option \<Rightarrow> string option \<Rightarrow> (string \<times> string option) list
     \<Rightarrow> exn + ('n, 'x) pipeline" where
  "DeepSpeechPipeline_init m model model_bin lm alphabet_a beam_width_a alpha beta ie_a device ie_extensions =
     (case (case alphabet_a of
              Alphabet_None \<Rightarrow> Inr (get_default_alphabet m)
            | Alphabet_str fname \<Rightarrow> load_alphabet m fname
            | Alphabet_list l \<Rightarrow> Inr l) of
        Inl e \<Rightarrow> Inl e
      | Inr alph \<Rightarrow>
          (let self = \<lparr> num_mfcc_dct_coefs = 26, num_context_frames = 19, num_batch_frames = 16,
                        model_sample_rate = 16000, frame_window_size_seconds = 32 / 1000,
                        frame_stride_seconds = 20 / 1000, beam_width = beam_width_a,
                        alphabet = alph, net = None, exec_net = None, default_device = device,
                        ie = (case ie_a of Some i \<Rightarrow> i | None \<Rightarrow> IECore m),
                        decoder = None, calls = [] \<rparr>
           in case load_net self model model_bin ie_extensions device None of
                (Inl e, self1) \<Rightarrow> Inl e
              | (Inr u, self1) \<Rightarrow>
                  (case CtcnumpyBeamSearchDecoder m (alphabet self1) (beam_width self1) lm alpha beta of
                     Inl e \<Rightarrow> Inl e
                   | Inr dec \<Rightarrow>
                       (let self2 = self1\<lparr>decoder := Some dec\<rparr> in
                        case device of
                          None \<Rightarrow> Inr self2
                        | Some d \<Rightarrow>
                            (case activate_model self2 d of
                               (Inl e, self3) \<Rightarrow> Inl e
                             | (Inr u, self3) \<Rightarrow> Inr self3)))))"

subsection \<open>Recognition\<close>

text \<open>\<open>audio/np.float32(32768)\<close> on an integer array; an array of another dtype is not touched.\<close>

fun normalize :: "samples \<Rightarrow> real list" where
  "normalize (IntegerSamples t xs) = map (\<lambda>x. real_of_int x / 32768) xs"
| "normalize (FloatingSamples xs) = xs"

definition extract_mfcc ::
  "('n, 'x) modules \<Rightarrow> ('n, 'x) pipeline \<Rightarrow> ndarray \<Rightarrow> int \<Rightarrow> (exn + matrix) \<times> ('n, 'x) pipeline" where
  "extract_mfcc m self audio sampling_rate =
     (let mono_error = ValueError (''Input audio file should be ''
                          @ str_div_1e3 (model_sample_rate self) @ '' kHz mono'')
      in if \<bar>real_of_int (sampling_rate - model_sample_rate self)\<bar> > real_of_int (model_sample_rate self) * (1 / 10)
         then (Inl mono_error, self)
         else
           (case tuple_index (shape audio @ [1]) 1 of
              Inl e \<Rightarrow> (Inl e, self)
            | Inr channels \<Rightarrow>
                if channels \<noteq> 1 then (Inl mono_error, self)
                else
                  (let audio1 = map (\<lambda>x. [x]) (normalize (data audio));
                       self1 = record_call Call_audio_spectrogram self
                   in case audio_spectrogram m audio1
                             (real_of_int sampling_rate * frame_window_size_seconds self)
                             (real_of_int sampling_rate * frame_stride_seconds self) True of
                        Inl e \<Rightarrow> (Inl e, self1)
                      | Inr spectrogram \<Rightarrow>
                          if concat spectrogram = []
                          then (Inl (ValueError ''cannot reshape array of size 0 into shape (1,0,newaxis)''), self1)
                          else
                            (let self2 = record_call Call_mfcc self1 in
                             case mfcc m [spectrogram] sampling_rate (num_mfcc_dct_coefs self) of
                               Inl e \<Rightarrow> (Inl e, self2)
                             | Inr features \<Rightarrow> (Inr features, self2)))))"

definition zeros :: "nat \<Rightarrow> nat \<Rightarrow> matrix" where
  "zeros r c = replicate r (replicate c 0)"

text \<open>\<open>range(0, stop, step)\<close> for a positive step.\<close>

definition range_step :: "nat \<Rightarrow> nat \<Rightarrow> nat list" where
  "range_step stop step = map (\<lambda>k. k * step) [0..<(stop + step - 1) div step]"

text \<open>\<open>a.squeeze(1)\<close> on a three-dimensional array.\<close>

definition squeeze1 :: "real list list list \<Rightarrow> exn + matrix" where
  "squeeze1 a =
     (if list_all (\<lambda>r. length r = 1) a then Inr (map hd a)
      else Inl (ValueError ''cannot select an axis to squeeze out which has size not equal to one''))"

text \<open>\<open>np.concatenate\<close> of a list of matrices along the first axis.\<close>

definition np_concatenate :: "matrix list \<Rightarrow> exn + matrix" where
  "np_concatenate ms =
     (if ms = [] then Inl (ValueError ''need at least one array to concatenate'') else Inr (concat ms))"

text \<open>
  The view that \<open>as_strided\<close> builds: window \<open>i\<close> is the \<open>num_context_frames\<close> frames
  from frame \<open>i\<close> on.
\<close>

definition context_windows :: "nat \<Rightarrow> nat \<Rightarrow> matrix \<Rightarrow> matrix list" where
  "context_windows num_strides context_frames features =
     map (\<lambda>i. take context_frames (drop i features)) [0..<num_strides]"

text \<open>
  The loop over the chunks: the positions still to visit, the state carried from the
  chunk before, and the outputs collected so far.
\<close>

fun infer_chunks ::
  "('n, 'x) pipeline \<Rightarrow> 'x \<Rightarrow> matrix list \<Rightarrow> nat list \<Rightarrow> lstm_state \<Rightarrow> lstm_state \<Rightarrow> matrix list
     \<Rightarrow> (exn + matrix list \<times> lstm_state \<times> lstm_state) \<times> ('n, 'x) pipeline" where
  "infer_chunks self xnet mfcc_features [] state_h state_c probs = (Inr (probs, state_h, state_c), self)"
| "infer_chunks self xnet mfcc_features (i # rest) state_h state_c probs =
     (let chunk = take (num_batch_frames self) (drop i mfcc_features);
          chunk = (if length chunk < num_batch_frames self
                   then chunk @ replicate (num_batch_frames self - length chunk)
                                  (zeros (num_context_frames self) (num_mfcc_dct_coefs self))
                   else chunk);
          inputs = \<lparr> previous_state_c = state_c, previous_state_h = state_h, input_node = [chunk] \<rparr>;
          self1 = record_call (Call_infer inputs) self
      in case infer (ie self) xnet inputs of
           Inl e \<Rightarrow> (Inl e, self1)
         | Inr res \<Rightarrow>
             (case squeeze1 (logits res) of
                Inl e \<Rightarrow> (Inl e, self1)
              | Inr rows \<Rightarrow>
                  infer_chunks self1 xnet mfcc_features rest
                    (TensorIterator_1 res) (TensorIterator_2 res) (probs @ [rows])))"

text \<open>
  \<open>extract_per_frame_probs\<close> with the default \<open>wrap_iterator\<close>. The value returned is
  \<open>probs\<close> alone (second component \<open>None\<close>) or the pair of \<open>probs\<close> and the state.
\<close>

definition extract_per_frame_probs ::
  "('n, 'x) pipeline \<Rightarrow> matrix \<Rightarrow> (lstm_state \<times> lstm_state) option \<Rightarrow> bool
     \<Rightarrow> (exn + matrix \<times> (lstm_state \<times> lstm_state) option) \<times> ('n, 'x) pipeline" where
  "extract_per_frame_probs self mfcc_features state return_state =
     (case exec_net self of
        None \<Rightarrow> (Inl (AssertionError ''Need to call mds.activate(device) method before mds.stt(...)''), self)
      | Some xnet \<Rightarrow>
          if \<not> list_all (\<lambda>f. length f = num_mfcc_dct_coefs self) mfcc_features
          then (Inl (ValueError ''all the input array dimensions except for the concatenation axis must match exactly''), self)
          else
            (let padding = zeros (num_context_frames self div 2) (num_mfcc_dct_coefs self);
                 mfcc_features = padding @ mfcc_features @ padding;
                 num_strides = nat (int (length mfcc_features) - int (num_context_frames self) + 1);
                 mfcc_features = context_windows num_strides (num_context_frames self) mfcc_features;
                 (state_h, state_c) = (case state of
                                         None \<Rightarrow> (zeros 1 2048, zeros 1 2048)
                                       | Some hc \<Rightarrow> hc)
             in if num_batch_frames self = 0
                then (Inl (ValueError ''range() arg 3 must not be zero''), self)
                else
                  (case infer_chunks self xnet mfcc_features
                          (range_step (length mfcc_features) (num_batch_frames self)) state_h state_c [] of
                     (Inl e, self1) \<Rightarrow> (Inl e, self1)
                   | (Inr (probs, state_h, state_c), self1) \<Rightarrow>
                       (case np_concatenate probs of
                          Inl e \<Rightarrow> (Inl e, self1)
                        | Inr probs \<Rightarrow>
                            if \<not> return_state then (Inr (probs, None), self1)
                            else (Inr (probs, Some (state_h, state_c)), self1)))))"

definition decode_probs ::
  "('n, 'x) pipeline \<Rightarrow> matrix \<Rightarrow> (exn + hypotheses) \<times> ('n, 'x) pipeline" where
  "decode_probs self probs =
     (case decoder self of
        None \<Rightarrow> (Inl (OtherException ''DeepSpeechPipeline object has no attribute decoder''), self)
      | Some dec \<Rightarrow>
          (case dec probs of
             Inl e \<Rightarrow> (Inl e, record_call Call_decode self)
           | Inr transcription \<Rightarrow> (Inr transcription, record_call Call_decode self)))"

definition recognize_audio ::
  "('n, 'x) modules \<Rightarrow> ('n, 'x) pipeline \<Rightarrow> ndarray \<Rightarrow> int \<Rightarrow> (exn + hypotheses) \<times> ('n, 'x) pipeline" where
  "recognize_audio m self audio sampling_rate =
     (case extract_mfcc m self audio sampling_rate of
        (Inl e, self1) \<Rightarrow> (Inl e, self1)
      | (Inr mfcc_features, self1) \<Rightarrow>
          (case extract_per_frame_probs self1 mfcc_features None False of
             (Inl e, self2) \<Rightarrow> (Inl e, self2)
           | (Inr (probs, st), self2) \<Rightarrow> decode_probs self2 probs))"

section \<open>Notions used in the properties\<close>

text \<open>
  Between two states of the world: every entry of the file system is still there
  unchanged, and every download request that is in the later log either was already in
  the earlier one or is for a blob whose local path did not exist in the earlier state.
\<close>

definition fresh_downloads :: "path \<Rightarrow> world \<Rightarrow> world \<Rightarrow> bool" where
  "fresh_downloads lp w w' =
     (files w \<subseteq>\<^sub>m files w' \<and>
      list_all (\<lambda>(c, n). (c, n) \<in> set (downloads w) \<or> files w (os_path_join lp n) = None) (downloads w'))"

section \<open>Example inputs\<close>





section \<open>Properties of Face_gallery_sync.py\<close>

subsection \<open>Existing files are never written\<close>

lemma files_print [simp]: "files (print l w) = files w"
  and downloads_print [simp]: "downloads (print l w) = downloads w"
  and stdout_print [simp]: "stdout (print l w) = stdout w @ [l]"
  by (simp_all add: print_def)

lemma exists_print [simp]: "os_path_exists (print l w) p = os_path_exists w p"
  by (simp add: os_path_exists_def)









subsection \<open>Downloads are only for paths that do not exist\<close>





lemma fresh_downloads_print [simp]:
  "fresh_downloads lp (print l w) w' = fresh_downloads lp w w'"
  "fresh_downloads lp w (print l w') = fresh_downloads lp w w'"
  by (simp_all add: fresh_downloads_def)








subsection \<open>What a completed run has copied\<close>











subsection \<open>Exceptions inside the iteration\<close>





subsection \<open>The mirror after one run\<close>





subsection \<open>Exception handling\<close>



subsection \<open>The script's entry point\<close>

text \<open>
  C10. Run as a script, the file calls \<open>run_sample()\<close> with no argument, although the
  function has the required positional parameter \<open>azs_storage\<close>. Whatever the storage
  account, the machine and the state of the world, the call raises \<open>TypeError\<close> before
  the body of the function starts: the files, the printed lines and the download requests
  are as they were, so no sync work is attempted, and the exception leaves the script
  uncaught.
\<close>

theorem main_raises_TypeError:
  "main st env w =
     (Some (TypeError (''run_sample() missing 1 required positional argument: ''
                        @ [CHR 0x27] @ ''azs_storage'' @ [CHR 0x27])), w)"
  by (simp add: main_def call_run_sample_def)

end
